theory Spec2Isabelle
  imports Complex_Main
begin

section \<open>The RevenuePulse model: forecasts, prices, simulations and KPIs\<close>

text \<open>
  This theory embeds the class \<open>RevenuePulseModel\<close>: \<open>getRevenueData\<close>,
  \<open>getMarketData\<close>, \<open>calculateKPIs\<close>, \<open>predictDemand\<close>, \<open>recommendPricing\<close> and
  \<open>runSimulation\<close>.

  Conventions of the embedding.
  \<^item> A JavaScript number that comes out of the record store, and everything
    \<open>predictDemand\<close>, \<open>recommendPricing\<close> and \<open>calculateKPIs\<close> compute from it, is a
    \<open>real\<close>: the arithmetic is exact, the rounding and the overflow of IEEE doubles are
    not modelled.
  \<^item> The numeric fields of a what-if scenario come from the request body and may be
    missing; there a number is a \<open>jsnum\<close>, which adds \<open>NaN\<close> and both infinities. On
    finite values the arithmetic of \<open>jsnum\<close> is exact as well: a double operation that
    overflows to an infinity has a finite value here. Therefore no statement below says
    that a computed number is finite; a statement that a value is \<open>NaN\<close> or an
    infinity rests on the propagation rules alone.
  \<^item> A \<open>Date\<close> is its time value, the milliseconds since the epoch, and the calendar
    is read in UTC (a zone without daylight saving).
  \<^item> An exception is a value \<open>Inl e\<close> of a sum type.
  \<^item> Names are those of the source. A parameter or a pattern variable whose name is also
    a field of a record carries a prime; the helper that computes a local variable \<open>x\<close>
    of the source is \<open>xOf\<close>.
\<close>

subsection \<open>JavaScript numbers with NaN\<close>

text \<open>
  \<open>Num a\<close> is a finite number. The sum, product and quotient of finite numbers are the
  exact ones (the quotient by 0 apart): neither the rounding nor the overflow of doubles
  is part of these operations. The rules for \<open>NaN\<close> and the infinities are those of
  the language.
\<close>

datatype jsnum = Num real | PosInf | NegInf | NaN

fun js_neg :: "jsnum \<Rightarrow> jsnum" where
  "js_neg (Num a) = Num (- a)"
| "js_neg PosInf = NegInf"
| "js_neg NegInf = PosInf"
| "js_neg NaN = NaN"

fun js_add :: "jsnum \<Rightarrow> jsnum \<Rightarrow> jsnum" where
  "js_add NaN _ = NaN"
| "js_add _ NaN = NaN"
| "js_add (Num a) (Num b) = Num (a + b)"
| "js_add PosInf NegInf = NaN"
| "js_add NegInf PosInf = NaN"
| "js_add PosInf _ = PosInf"
| "js_add NegInf _ = NegInf"
| "js_add (Num a) b = b"

definition js_sub :: "jsnum \<Rightarrow> jsnum \<Rightarrow> jsnum" where
  "js_sub a b = js_add a (js_neg b)"

text \<open>The sign of an infinite product or quotient; a zero counts as \<open>+0\<close>.\<close>

definition inf_of_sign :: "bool \<Rightarrow> jsnum" where
  "inf_of_sign positive = (if positive then PosInf else NegInf)"

fun js_mul :: "jsnum \<Rightarrow> jsnum \<Rightarrow> jsnum" where
  "js_mul NaN _ = NaN"
| "js_mul _ NaN = NaN"
| "js_mul (Num a) (Num b) = Num (a * b)"
| "js_mul PosInf PosInf = PosInf"
| "js_mul PosInf NegInf = NegInf"
| "js_mul NegInf PosInf = NegInf"
| "js_mul NegInf NegInf = PosInf"
| "js_mul PosInf (Num b) = (if b = 0 then NaN else inf_of_sign (0 < b))"
| "js_mul NegInf (Num b) = (if b = 0 then NaN else inf_of_sign (b < 0))"
| "js_mul (Num a) PosInf = (if a = 0 then NaN else inf_of_sign (0 < a))"
| "js_mul (Num a) NegInf = (if a = 0 then NaN else inf_of_sign (a < 0))"

fun js_div :: "jsnum \<Rightarrow> jsnum \<Rightarrow> jsnum" where
  "js_div NaN _ = NaN"
| "js_div _ NaN = NaN"
| "js_div (Num a) (Num b) =
     (if b = 0 then (if a = 0 then NaN else inf_of_sign (0 < a)) else Num (a / b))"
| "js_div (Num a) _ = Num 0"
| "js_div PosInf (Num b) = inf_of_sign (0 \<le> b)"
| "js_div NegInf (Num b) = inf_of_sign (b < 0)"
| "js_div _ _ = NaN"

text \<open>\<open>a > b\<close>: false as soon as one side is \<open>NaN\<close>.\<close>

fun js_gt :: "jsnum \<Rightarrow> jsnum \<Rightarrow> bool" where
  "js_gt NaN _ = False"
| "js_gt _ NaN = False"
| "js_gt (Num a) (Num b) = (b < a)"
| "js_gt PosInf PosInf = False"
| "js_gt PosInf _ = True"
| "js_gt _ PosInf = False"
| "js_gt NegInf _ = False"
| "js_gt (Num a) NegInf = True"

text \<open>\<open>Math.min\<close> and \<open>Math.max\<close> of two arguments: \<open>NaN\<close> if either is.\<close>

fun Math_min :: "jsnum \<Rightarrow> jsnum \<Rightarrow> jsnum" where
  "Math_min NaN _ = NaN"
| "Math_min _ NaN = NaN"
| "Math_min a b = (if js_gt a b then b else a)"

fun Math_max :: "jsnum \<Rightarrow> jsnum \<Rightarrow> jsnum" where
  "Math_max NaN _ = NaN"
| "Math_max _ NaN = NaN"
| "Math_max a b = (if js_gt b a then b else a)"


text \<open>\<open>Math.round\<close>: the nearest integer, a tie going up.\<close>

definition Math_round :: "real \<Rightarrow> int" where
  "Math_round x = \<lfloor>x + 1 / 2\<rfloor>"

text \<open>\<open>v || 0\<close> on a numeric field: a missing field (and 0 itself) gives 0.\<close>

definition orZero :: "real option \<Rightarrow> real" where
  "orZero v = (case v of None \<Rightarrow> 0 | Some x \<Rightarrow> x)"

subsection \<open>Dates\<close>

type_synonym jsdate = int

definition msPerDay :: int where
  "msPerDay = 24 * 60 * 60 * 1000"

definition dayNumber :: "jsdate \<Rightarrow> int" where
  "dayNumber d = d div msPerDay"

text \<open>\<open>d.setDate(d.getDate() + i)\<close>: the same time of day, \<open>i\<close> calendar days later.\<close>

definition addDays :: "jsdate \<Rightarrow> int \<Rightarrow> jsdate" where
  "addDays d i = d + i * msPerDay"

text \<open>\<open>getDay\<close>: 0 is Sunday; the epoch was a Thursday.\<close>

definition getDay :: "jsdate \<Rightarrow> int" where
  "getDay d = (dayNumber d + 4) mod 7"

text \<open>The proleptic Gregorian date (year, month 1..12, day) of a day number.\<close>

definition civil :: "int \<Rightarrow> int \<times> int \<times> int" where
  "civil days =
     (let z = days + 719468;
          era = z div 146097;
          doe = z mod 146097;
          yoe = (doe - doe div 1460 + doe div 36524 - doe div 146096) div 365;
          doy = doe - (365 * yoe + yoe div 4 - yoe div 100);
          mp = (5 * doy + 2) div 153;
          dd = doy - (153 * mp + 2) div 5 + 1;
          mm = (if mp < 10 then mp + 3 else mp - 9);
          yy = yoe + era * 400 + (if mm \<le> 2 then 1 else 0)
      in (yy, mm, dd))"

text \<open>\<open>getMonth\<close>: 0 is January.\<close>

definition getMonth :: "jsdate \<Rightarrow> int" where
  "getMonth d = fst (snd (civil (dayNumber d))) - 1"

text \<open>
  \<open>toDateString\<close> prints the weekday, the month, the day and the year, and nothing of
  the time of day; its value here is that tuple.
\<close>

definition toDateString :: "jsdate \<Rightarrow> int \<times> int \<times> int \<times> int" where
  "toDateString d = (getDay d, civil (dayNumber d))"

subsection \<open>Records of the store\<close>

record revenueRecord =
  rev_hotelId :: string
  rev_date :: jsdate
  roomRevenue :: "real option"
  foodBeverageRevenue :: "real option"
  spaRevenue :: "real option"
  retailRevenue :: "real option"
  otherRevenue :: "real option"
  totalRevenue :: "real option"
  occupancyRate :: "real option"
  adr :: "real option"
  revPAR :: "real option"

record event =
  eventName :: string
  expectedImpact :: string

record marketRecord =
  mkt_hotelId :: string
  mkt_date :: jsdate
  events :: "event list"

text \<open>
  The two queries: the records of the hotel dated within the closed range, in ascending
  date order.
\<close>

definition getRevenueData ::
  "revenueRecord list \<Rightarrow> string \<Rightarrow> jsdate \<Rightarrow> jsdate \<Rightarrow> revenueRecord list" where
  "getRevenueData store hotelId' startDate' endDate' =
     sort_key rev_date
       (filter (\<lambda>r. rev_hotelId r = hotelId' \<and> startDate' \<le> rev_date r \<and> rev_date r \<le> endDate') store)"

definition getMarketData ::
  "marketRecord list \<Rightarrow> string \<Rightarrow> jsdate \<Rightarrow> jsdate \<Rightarrow> marketRecord list" where
  "getMarketData store hotelId' startDate' endDate' =
     sort_key mkt_date
       (filter (\<lambda>r. mkt_hotelId r = hotelId' \<and> startDate' \<le> mkt_date r \<and> mkt_date r \<le> endDate') store)"

datatype error = TypeError | HotelNotFound

subsection \<open>predictDemand\<close>

record factors =
  weekendFactor :: real
  seasonalityFactor :: real
  eventsImpact :: real

record prediction =
  date :: jsdate
  predictedOccupancy :: real
  predictedADR :: real
  predictedRevPAR :: real
  factors :: factors

text \<open>
  The results of \<open>predictDemand\<close> and \<open>recommendPricing\<close> start with the same three
  fields, and the result of \<open>runSimulation\<close> with the first of them.
\<close>

record withHotel =
  hotelId :: string

record forecastHeader = withHotel +
  targetDate :: jsdate
  daysAhead :: int

record demandForecast = forecastHeader +
  predictions :: "prediction list"

text \<open>
  The \<open>forEach\<close> over the events of the day. \<open>eventsImpact\<close> is declared with
  \<open>const\<close>, so each of the three compound assignments \<open>eventsImpact += \<dots>\<close> raises
  a TypeError when it is reached; an event with another impact assigns nothing.
\<close>

fun eventsLoop :: "real \<Rightarrow> event list \<Rightarrow> error + real" where
  "eventsLoop eventsImpact' [] = Inr eventsImpact'"
| "eventsLoop eventsImpact' (e # es) =
     (if expectedImpact e = ''high'' then Inl TypeError
      else if expectedImpact e = ''medium'' then Inl TypeError
      else if expectedImpact e = ''low'' then Inl TypeError
      else eventsLoop eventsImpact' es)"

definition seasonalityFactorOf :: "int \<Rightarrow> real" where
  "seasonalityFactorOf month =
     (if month \<ge> 5 \<and> month \<le> 8 then 1.3
      else if month \<ge> 11 \<or> month \<le> 1 then 1.2
      else if month \<ge> 2 \<and> month \<le> 4 then 1.1
      else 0.9)"

text \<open>
  The search for the market record of the forecast day and the loop over its events:
  the value of \<open>eventsImpact\<close> after them, or the exception.
\<close>

definition dayEventsImpact :: "marketRecord list \<Rightarrow> jsdate \<Rightarrow> error + real" where
  "dayEventsImpact marketData forecastDate =
     (let relevantMarketData =
            find (\<lambda>data. toDateString (mkt_date data) = toDateString forecastDate) marketData
      in case relevantMarketData of
           None \<Rightarrow> Inr 1.0
         | Some m \<Rightarrow> (if length (events m) > 0 then eventsLoop 1.0 (events m) else Inr 1.0))"

definition weekendFactorOf :: "int \<Rightarrow> real" where
  "weekendFactorOf dayOfWeek =
     (if dayOfWeek = 0 \<or> dayOfWeek = 5 \<or> dayOfWeek = 6 then 1.2 else 1.0)"

definition baseADROf :: "revenueRecord list \<Rightarrow> real" where
  "baseADROf revenueData =
     (if length revenueData > 0
      then foldl (\<lambda>sum data. sum + orZero (adr data)) 0 revenueData / real (length revenueData)
      else 100)"

definition occupancyADRFactorOf :: "real \<Rightarrow> real" where
  "occupancyADRFactorOf occupancy =
     (if occupancy > 80 then 1.3
      else if occupancy > 60 then 1.1
      else if occupancy > 40 then 0.9 else 0.8)"

text \<open>The body of the \<open>for\<close> loop of \<open>predictDemand\<close>, for the day \<open>i\<close>.\<close>

definition forecastDay ::
  "revenueRecord list \<Rightarrow> marketRecord list \<Rightarrow> real \<Rightarrow> jsdate \<Rightarrow> int \<Rightarrow> error + prediction" where
  "forecastDay revenueData marketData avgOccupancy forecastStartDate i =
     (let forecastDate = addDays forecastStartDate i
      in case dayEventsImpact marketData forecastDate of
           Inl e \<Rightarrow> Inl e
         | Inr eventsImpact' \<Rightarrow>
            (let dayOfWeek = getDay forecastDate;
                 weekendFactor = weekendFactorOf dayOfWeek;
                 month = getMonth forecastDate;
                 seasonalityFactor = seasonalityFactorOf month;
                 predictedOccupancy =
                   min 100 (max 0 (avgOccupancy * weekendFactor * seasonalityFactor * eventsImpact'));
                 baseADR = baseADROf revenueData;
                 occupancyADRFactor = occupancyADRFactorOf predictedOccupancy;
                 predictedADR = baseADR * occupancyADRFactor * seasonalityFactor;
                 predictedRevPAR = predictedOccupancy * predictedADR / 100
             in Inr \<lparr> date = forecastDate,
                      predictedOccupancy = predictedOccupancy,
                      predictedADR = predictedADR,
                      predictedRevPAR = predictedRevPAR,
                      factors = \<lparr> weekendFactor = weekendFactor,
                                  seasonalityFactor = seasonalityFactor,
                                  eventsImpact = eventsImpact' \<rparr> \<rparr>))"

text \<open>
  The \<open>for\<close> loop: \<open>i\<close> runs from its start value up to \<open>daysAhead\<close>, and each day's
  prediction is pushed onto \<open>predictions\<close>; an exception of the body ends the loop.
\<close>

function predictionLoop ::
  "revenueRecord list \<Rightarrow> marketRecord list \<Rightarrow> real \<Rightarrow> jsdate \<Rightarrow> int \<Rightarrow> int
     \<Rightarrow> prediction list \<Rightarrow> error + prediction list" where
  "predictionLoop revenueData marketData avgOccupancy forecastStartDate daysAhead' i predictions' =
     (if i < daysAhead' then
        (case forecastDay revenueData marketData avgOccupancy forecastStartDate i of
           Inl e \<Rightarrow> Inl e
         | Inr p \<Rightarrow>
             predictionLoop revenueData marketData avgOccupancy forecastStartDate daysAhead'
               (i + 1) (predictions' @ [p]))
      else Inr predictions')"
  by pat_completeness auto
termination
  by (relation "measure (\<lambda>(rd, md, avg, start, daysAhead, i, ps). nat (daysAhead - i))") auto

declare predictionLoop.simps [simp del]

text \<open>The average of the occupancy rates of the fetched records, 0 without records.\<close>

definition avgOccupancyOf :: "revenueRecord list \<Rightarrow> real" where
  "avgOccupancyOf revenueData =
     (let totalOccupancy =
            foldl (\<lambda>total data. total + orZero (occupancyRate data)) 0 revenueData
      in if length revenueData > 0 then totalOccupancy / real (length revenueData) else 0)"

definition predictDemand ::
  "revenueRecord list \<Rightarrow> marketRecord list \<Rightarrow> string \<Rightarrow> jsdate \<Rightarrow> int
     \<Rightarrow> error + demandForecast" where
  "predictDemand revenueStore marketStore hotelId' targetDate' daysAhead' =
     (let endDate = targetDate';
          startDate = addDays targetDate' (- 90);
          revenueData = getRevenueData revenueStore hotelId' startDate endDate;
          marketData = getMarketData marketStore hotelId' startDate endDate;
          avgOccupancy = avgOccupancyOf revenueData;
          forecastStartDate = targetDate'
      in case predictionLoop revenueData marketData avgOccupancy forecastStartDate daysAhead' 0 [] of
           Inl e \<Rightarrow> Inl e
         | Inr predictions' \<Rightarrow>
             Inr \<lparr> hotelId = hotelId', targetDate = targetDate', daysAhead = daysAhead',
                   predictions = predictions' \<rparr>)"

subsection \<open>recommendPricing\<close>

record roomTypeEntry =
  name :: string
  basePrice :: real

record priceRange =
  min_price :: int
  max_price :: int

record roomRecommendation =
  roomType :: string
  recommendedPrice :: int
  priceRange :: priceRange
  expectedRevenue :: real

record dailyRecommendation =
  rec_date :: jsdate
  occupancyForecast :: real
  roomTypes :: "roomRecommendation list"

record pricingRecommendations = forecastHeader +
  recommendations :: "dailyRecommendation list"

text \<open>The placeholder table \<open>roomTypes\<close> of the source.\<close>

definition roomTypesTable :: "roomTypeEntry list" where
  "roomTypesTable =
     [\<lparr> name = ''Standard'', basePrice = 100 \<rparr>,
      \<lparr> name = ''Deluxe'', basePrice = 150 \<rparr>,
      \<lparr> name = ''Suite'', basePrice = 250 \<rparr>,
      \<lparr> name = ''Executive Suite'', basePrice = 350 \<rparr>]"

definition roomTypeFactorOf :: "string \<Rightarrow> real" where
  "roomTypeFactorOf n =
     (if n = ''Standard'' then 1.0
      else if n = ''Deluxe'' then 1.1
      else if n = ''Suite'' then 1.2 else 1.3)"

definition demandFactorOf :: "real \<Rightarrow> real" where
  "demandFactorOf occupancy =
     (if occupancy > 80 then 1.4
      else if occupancy > 60 then 1.2
      else if occupancy > 40 then 1.0 else 0.9)"

text \<open>The body of the inner \<open>forEach\<close>: one room type on one day.\<close>

definition recommendRoom :: "prediction \<Rightarrow> roomTypeEntry \<Rightarrow> roomRecommendation" where
  "recommendRoom p rt =
     (let roomTypeFactor = roomTypeFactorOf (name rt);
          demandFactor = demandFactorOf (predictedOccupancy p);
          recommendedPrice =
            Math_round (basePrice rt * demandFactor * roomTypeFactor * seasonalityFactor (factors p));
          minPrice = Math_round (real_of_int recommendedPrice * 0.9);
          maxPrice = Math_round (real_of_int recommendedPrice * 1.1)
      in \<lparr> roomType = name rt,
           recommendedPrice = recommendedPrice,
           priceRange = \<lparr> min_price = minPrice, max_price = maxPrice \<rparr>,
           expectedRevenue = real_of_int recommendedPrice * (predictedOccupancy p / 100) \<rparr>)"

text \<open>The body of the outer \<open>forEach\<close>: one day, every room type of the table in turn.\<close>

definition recommendDay :: "prediction \<Rightarrow> dailyRecommendation" where
  "recommendDay p =
     \<lparr> rec_date = date p,
       occupancyForecast = predictedOccupancy p,
       roomTypes = map (recommendRoom p) roomTypesTable \<rparr>"

text \<open>\<open>Hotel.findById\<close> over the identifiers of the stored hotels.\<close>

definition findById :: "string list \<Rightarrow> string \<Rightarrow> string option" where
  "findById hotels hotelId' = find (\<lambda>h. h = hotelId') hotels"

definition recommendPricing ::
  "revenueRecord list \<Rightarrow> marketRecord list \<Rightarrow> string list \<Rightarrow> string \<Rightarrow> jsdate \<Rightarrow> int
     \<Rightarrow> error + pricingRecommendations" where
  "recommendPricing revenueStore marketStore hotels hotelId' targetDate' daysAhead' =
     (case predictDemand revenueStore marketStore hotelId' targetDate' daysAhead' of
        Inl e \<Rightarrow> Inl e
      | Inr demandForecast \<Rightarrow>
          (case findById hotels hotelId' of
             None \<Rightarrow> Inl HotelNotFound
           | Some hotel \<Rightarrow>
               Inr \<lparr> hotelId = hotelId', targetDate = targetDate', daysAhead = daysAhead',
                     recommendations = map recommendDay (predictions demandForecast) \<rparr>))"

subsection \<open>runSimulation\<close>

text \<open>
  A numeric field that the scenario object lacks is \<open>undefined\<close>; every use of such a
  field below is arithmetic or a comparison, which converts \<open>undefined\<close> to \<open>NaN\<close>. So
  a missing field is the value \<open>NaN\<close>.
\<close>

record scenario =
  startDate :: jsdate
  endDate :: jsdate
  priceChange :: jsnum
  marketingSpend :: jsnum
  competitorPriceChange :: jsnum

record 'n metrics =
  occupancy :: 'n
  m_adr :: 'n
  m_revPAR :: 'n

record dailyResult =
  sim_date :: jsdate
  baseline :: "real metrics"
  simulated :: "jsnum metrics"
  change :: "jsnum metrics"

text \<open>\<open>roi\<close> is a number or \<open>null\<close>, here \<open>None\<close>.\<close>

record summary =
  baselineTotalRevPAR :: real
  simulatedTotalRevPAR :: jsnum
  totalRevPARChange :: jsnum
  percentRevPARChange :: jsnum
  roi :: "jsnum option"

record simulationResult = withHotel +
  scenario :: scenario
  summary :: summary
  dailyResults :: "dailyResult list"

definition priceElasticity :: real where
  "priceElasticity = - 0.5"

definition demandChangeFromPriceOf :: "jsnum \<Rightarrow> jsnum" where
  "demandChangeFromPriceOf priceChange' = js_mul priceChange' (Num priceElasticity)"

definition marketingImpactOf :: "jsnum \<Rightarrow> jsnum" where
  "marketingImpactOf marketingSpend' =
     Math_min (Num 0.1) (js_mul (js_div marketingSpend' (Num 1000)) (Num 0.02))"

definition competitorImpactOf :: "jsnum \<Rightarrow> jsnum" where
  "competitorImpactOf competitorPriceChange' = js_mul competitorPriceChange' (Num 0.3)"

text \<open>The callback of \<open>baselineForecast.predictions.map\<close>.\<close>

definition simulatePrediction ::
  "jsnum \<Rightarrow> jsnum \<Rightarrow> jsnum \<Rightarrow> jsnum \<Rightarrow> prediction \<Rightarrow> dailyResult" where
  "simulatePrediction demandChangeFromPrice marketingImpact competitorImpact priceChange' p =
     (let occupancyChange = js_add (js_add demandChangeFromPrice marketingImpact) competitorImpact;
          newOccupancy =
            Math_min (Num 100)
              (Math_max (Num 0) (js_mul (Num (predictedOccupancy p)) (js_add (Num 1) occupancyChange)));
          newADR = js_mul (Num (predictedADR p)) (js_add (Num 1) (js_div priceChange' (Num 100)));
          newRevPAR = js_div (js_mul newOccupancy newADR) (Num 100)
      in \<lparr> sim_date = date p,
           baseline = \<lparr> occupancy = predictedOccupancy p,
                        m_adr = predictedADR p,
                        m_revPAR = predictedRevPAR p \<rparr>,
           simulated = \<lparr> occupancy = newOccupancy, m_adr = newADR, m_revPAR = newRevPAR \<rparr>,
           change = \<lparr> occupancy = js_sub newOccupancy (Num (predictedOccupancy p)),
                      m_adr = js_sub newADR (Num (predictedADR p)),
                      m_revPAR = js_sub newRevPAR (Num (predictedRevPAR p)) \<rparr> \<rparr>)"

text \<open>The number of days handed to \<open>predictDemand\<close>.\<close>

definition simulationDays :: "jsdate \<Rightarrow> jsdate \<Rightarrow> int" where
  "simulationDays startDate' endDate' =
     Math_round (real_of_int (endDate' - startDate') / real_of_int (24 * 60 * 60 * 1000))"

definition roiOf :: "jsnum \<Rightarrow> jsnum \<Rightarrow> jsnum option" where
  "roiOf marketingSpend' totalRevPARChange' =
     (if js_gt marketingSpend' (Num 0)
      then Some (js_mul (js_div totalRevPARChange' marketingSpend') (Num 100))
      else None)"

definition runSimulation ::
  "revenueRecord list \<Rightarrow> marketRecord list \<Rightarrow> string \<Rightarrow> scenario \<Rightarrow> error + simulationResult" where
  "runSimulation revenueStore marketStore hotelId' scenario' =
     (case predictDemand revenueStore marketStore hotelId' (startDate scenario')
             (simulationDays (startDate scenario') (endDate scenario')) of
        Inl e \<Rightarrow> Inl e
      | Inr baselineForecast \<Rightarrow>
         (let demandChangeFromPrice = demandChangeFromPriceOf (priceChange scenario');
              marketingImpact = marketingImpactOf (marketingSpend scenario');
              competitorImpact = competitorImpactOf (competitorPriceChange scenario');
              simulatedPredictions =
                map (simulatePrediction demandChangeFromPrice marketingImpact competitorImpact
                       (priceChange scenario'))
                  (predictions baselineForecast);
              baselineTotalRevPAR =
                foldl (\<lambda>sum p. sum + predictedRevPAR p) 0 (predictions baselineForecast);
              simulatedTotalRevPAR =
                foldl (\<lambda>sum p. js_add sum (m_revPAR (simulated p))) (Num 0) simulatedPredictions;
              totalRevPARChange = js_sub simulatedTotalRevPAR (Num baselineTotalRevPAR);
              percentRevPARChange =
                js_mul (js_div totalRevPARChange (Num baselineTotalRevPAR)) (Num 100);
              roi = roiOf (marketingSpend scenario') totalRevPARChange
          in Inr \<lparr> hotelId = hotelId',
                   scenario = scenario',
                   summary = \<lparr> baselineTotalRevPAR = baselineTotalRevPAR,
                               simulatedTotalRevPAR = simulatedTotalRevPAR,
                               totalRevPARChange = totalRevPARChange,
                               percentRevPARChange = percentRevPARChange,
                               roi = roi \<rparr>,
                   dailyResults = simulatedPredictions \<rparr>))"

subsection \<open>calculateKPIs\<close>

text \<open>
  The result is an object literal; it is kept as the list of its keys and values, so that
  the two literals of the source can be compared key by key.
\<close>

datatype jsval = JNum real | JObj "(string \<times> jsval) list"

primrec shape :: "jsval \<Rightarrow> jsval" where
  "shape (JNum x) = JNum 0"
| "shape (JObj kvs) = JObj (map (map_prod id shape) kvs)"

text \<open>One of the nine running totals of the \<open>forEach\<close>.\<close>

definition totalOf :: "(revenueRecord \<Rightarrow> real option) \<Rightarrow> revenueRecord list \<Rightarrow> real" where
  "totalOf field revenueData = foldl (\<lambda>total data. total + orZero (field data)) 0 revenueData"

definition calculateKPIs :: "revenueRecord list \<Rightarrow> string \<Rightarrow> jsdate \<Rightarrow> jsdate \<Rightarrow> jsval" where
  "calculateKPIs revenueStore hotelId' startDate' endDate' =
     (let revenueData = getRevenueData revenueStore hotelId' startDate' endDate'
      in if length revenueData = 0 then
           JObj [(''totalRevenue'', JNum 0),
                 (''averageOccupancy'', JNum 0),
                 (''averageADR'', JNum 0),
                 (''averageRevPAR'', JNum 0),
                 (''revenueBreakdown'',
                    JObj [(''room'', JNum 0),
                          (''foodBeverage'', JNum 0),
                          (''spa'', JNum 0),
                          (''retail'', JNum 0),
                          (''other'', JNum 0)])]
         else
           (let totalRevenue' = totalOf totalRevenue revenueData;
                totalRoomRevenue = totalOf roomRevenue revenueData;
                totalFBRevenue = totalOf foodBeverageRevenue revenueData;
                totalSpaRevenue = totalOf spaRevenue revenueData;
                totalRetailRevenue = totalOf retailRevenue revenueData;
                totalOtherRevenue = totalOf otherRevenue revenueData;
                totalOccupancy = totalOf occupancyRate revenueData;
                totalADR = totalOf adr revenueData;
                totalRevPAR = totalOf revPAR revenueData;
                dataPoints = real (length revenueData);
                averageOccupancy = totalOccupancy / dataPoints;
                averageADR = totalADR / dataPoints;
                averageRevPAR = totalRevPAR / dataPoints
            in JObj [(''totalRevenue'', JNum totalRevenue'),
                     (''averageOccupancy'', JNum averageOccupancy),
                     (''averageADR'', JNum averageADR),
                     (''averageRevPAR'', JNum averageRevPAR),
                     (''revenueBreakdown'',
                        JObj [(''room'', JNum totalRoomRevenue),
                              (''foodBeverage'', JNum totalFBRevenue),
                              (''spa'', JNum totalSpaRevenue),
                              (''retail'', JNum totalRetailRevenue),
                              (''other'', JNum totalOtherRevenue)])]))"

subsection \<open>Where the assignment to the constant is reached\<close>

text \<open>
  An event whose impact is one of the three that \<open>eventsLoop\<close> tests, and a forecast
  day whose market record holds such an event.
\<close>

definition impactful :: "event \<Rightarrow> bool" where
  "impactful e =
     (expectedImpact e = ''high'' \<or> expectedImpact e = ''medium'' \<or> expectedImpact e = ''low'')"

definition assignsConst :: "marketRecord list \<Rightarrow> jsdate \<Rightarrow> bool" where
  "assignsConst marketData forecastDate =
     (case find (\<lambda>data. toDateString (mkt_date data) = toDateString forecastDate) marketData of
        None \<Rightarrow> False
      | Some m \<Rightarrow> list_ex impactful (events m))"

subsection \<open>Sample data\<close>

text \<open>
  Wednesday 6 March 2024 and Saturday 9 March 2024, both at midnight; one revenue record
  of 1 March 2024 with occupancy 70 and ADR 180; one market record of 9 March with one
  event of high impact.
\<close>

definition wednesday :: jsdate where
  "wednesday = 1709683200000"

definition saturday :: jsdate where
  "saturday = 1709942400000"

definition sampleRevenue :: revenueRecord where
  "sampleRevenue =
     \<lparr> rev_hotelId = ''h1'', rev_date = 1709251200000,
       roomRevenue = Some 9000, foodBeverageRevenue = Some 2000, spaRevenue = None,
       retailRevenue = None, otherRevenue = Some 600, totalRevenue = Some 11600,
       occupancyRate = Some 70, adr = Some 180, revPAR = Some 126 \<rparr>"

definition sampleMarket :: marketRecord where
  "sampleMarket =
     \<lparr> mkt_hotelId = ''h1'', mkt_date = 1709942400000,
       events = [\<lparr> eventName = ''Trade fair'', expectedImpact = ''high'' \<rparr>] \<rparr>"

definition sampleScenario :: "jsnum \<Rightarrow> jsnum \<Rightarrow> scenario" where
  "sampleScenario spend competitor =
     \<lparr> startDate = 1709683200000, endDate = 1709769600000, priceChange = Num 10,
       marketingSpend = spend, competitorPriceChange = competitor \<rparr>"

text \<open>The forecast of two days from that Wednesday, and its first day.\<close>

definition samplePrediction :: prediction where
  "samplePrediction =
     \<lparr> date = 1709683200000, predictedOccupancy = 77, predictedADR = 1089 / 5,
       predictedRevPAR = 83853 / 500,
       factors = \<lparr> weekendFactor = 1, seasonalityFactor = 11 / 10, eventsImpact = 1 \<rparr> \<rparr>"

definition sampleForecast :: demandForecast where
  "sampleForecast =
     \<lparr> hotelId = ''h1'', targetDate = 1709683200000, daysAhead = 2,
       predictions = [samplePrediction, samplePrediction \<lparr> date := 1709769600000 \<rparr>] \<rparr>"

text \<open>A baseline day with predicted occupancy 70 and predicted ADR 150.\<close>

definition baselineDay :: prediction where
  "baselineDay =
     \<lparr> date = 1709683200000, predictedOccupancy = 70, predictedADR = 150,
       predictedRevPAR = 105,
       factors = \<lparr> weekendFactor = 1, seasonalityFactor = 11 / 10, eventsImpact = 1 \<rparr> \<rparr>"

text \<open>The pricing of that Wednesday alone: the day, and its Deluxe room.\<close>

definition sampleRoom :: roomRecommendation where
  "sampleRoom =
     \<lparr> roomType = ''Deluxe'', recommendedPrice = 218,
       priceRange = \<lparr> min_price = 196, max_price = 240 \<rparr>,
       expectedRevenue = 8393 / 50 \<rparr>"

definition sampleDay :: dailyRecommendation where
  "sampleDay =
     \<lparr> rec_date = 1709683200000, occupancyForecast = 77,
       roomTypes =
         [\<lparr> roomType = ''Standard'', recommendedPrice = 132,
            priceRange = \<lparr> min_price = 119, max_price = 145 \<rparr>,
            expectedRevenue = 2541 / 25 \<rparr>,
          sampleRoom,
          \<lparr> roomType = ''Suite'', recommendedPrice = 396,
            priceRange = \<lparr> min_price = 356, max_price = 436 \<rparr>,
            expectedRevenue = 7623 / 25 \<rparr>,
          \<lparr> roomType = ''Executive Suite'', recommendedPrice = 601,
            priceRange = \<lparr> min_price = 541, max_price = 661 \<rparr>,
            expectedRevenue = 46277 / 100 \<rparr>] \<rparr>"

definition samplePricing :: pricingRecommendations where
  "samplePricing =
     \<lparr> hotelId = ''h1'', targetDate = 1709683200000, daysAhead = 1,
       recommendations = [sampleDay] \<rparr>"

text \<open>
  The simulation of that Wednesday alone with a price change of 10 percent and no
  competitor change, for a given marketing spend and the ROI that goes with it.
\<close>

definition sampleSimulation :: "jsnum \<Rightarrow> jsnum option \<Rightarrow> simulationResult" where
  "sampleSimulation spend r =
     \<lparr> hotelId = ''h1'',
       scenario = sampleScenario spend (Num 0),
       summary = \<lparr> baselineTotalRevPAR = 83853 / 500, simulatedTotalRevPAR = Num 0,
                   totalRevPARChange = Num (- (83853 / 500)),
                   percentRevPARChange = Num (- 100), roi = r \<rparr>,
       dailyResults =
         [\<lparr> sim_date = 1709683200000,
            baseline = \<lparr> occupancy = 77, m_adr = 1089 / 5, m_revPAR = 83853 / 500 \<rparr>,
            simulated = \<lparr> occupancy = Num 0, m_adr = Num (11979 / 50), m_revPAR = Num 0 \<rparr>,
            change = \<lparr> occupancy = Num (- 77), m_adr = Num (1089 / 50),
                       m_revPAR = Num (- (83853 / 500)) \<rparr> \<rparr>] \<rparr>"


subsection \<open>The specification's side\<close>

text \<open>
  The recommended price in the words of the specification: the base price times the
  demand factor (1.4 above 80, 1.2 above 60, 1.0 above 40, else 0.9) times the type factor
  times the seasonality factor of the day, rounded.
\<close>

definition specRecommendedPrice :: "real \<Rightarrow> real \<Rightarrow> prediction \<Rightarrow> int" where
  "specRecommendedPrice base typeFactor p =
     Math_round
       (base
        * (if predictedOccupancy p > 80 then 1.4
           else if predictedOccupancy p > 60 then 1.2
           else if predictedOccupancy p > 40 then 1.0 else 0.9)
        * typeFactor * seasonalityFactor (factors p))"

text \<open>The name, the recommended price and the expected revenue of a room recommendation.\<close>

definition roomSummary :: "roomRecommendation \<Rightarrow> string \<times> int \<times> real" where
  "roomSummary x = (roomType x, recommendedPrice x, expectedRevenue x)"

text \<open>The all-zero result of the specification for an empty set of records.\<close>

definition zeroKPIs :: jsval where
  "zeroKPIs =
     JObj [(''totalRevenue'', JNum 0),
           (''averageOccupancy'', JNum 0),
           (''averageADR'', JNum 0),
           (''averageRevPAR'', JNum 0),
           (''revenueBreakdown'',
              JObj [(''room'', JNum 0),
                    (''foodBeverage'', JNum 0),
                    (''spa'', JNum 0),
                    (''retail'', JNum 0),
                    (''other'', JNum 0)])]"

section \<open>Properties\<close>

subsection \<open>The events of a day\<close>

lemma eventsLoop_cases:
  "eventsLoop x es = (if list_ex impactful es then Inl TypeError else Inr x)"
  by (induction es) (auto simp: impactful_def)

lemma dayEventsImpact_cases:
  "dayEventsImpact md d = (if assignsConst md d then Inl TypeError else Inr 1)"
  by (cases "find (\<lambda>data. toDateString (mkt_date data) = toDateString d) md")
     (auto simp: dayEventsImpact_def assignsConst_def eventsLoop_cases)

lemma forecastDay_raises:
  "assignsConst md (addDays start i) \<Longrightarrow> forecastDay rd md avg start i = Inl TypeError"
  by (simp add: forecastDay_def dayEventsImpact_cases)

lemma forecastDay_returns:
  "\<not> assignsConst md (addDays start i) \<Longrightarrow> \<exists>p. forecastDay rd md avg start i = Inr p"
  by (simp add: forecastDay_def dayEventsImpact_cases Let_def)

lemma forecastDay_Inl:
  "forecastDay rd md avg start i = Inl e \<Longrightarrow> e = TypeError \<and> assignsConst md (addDays start i)"
  using forecastDay_raises [of md start i rd avg] forecastDay_returns [of md start i rd avg]
  by (cases "assignsConst md (addDays start i)") auto

lemma forecastDay_Inr:
  assumes "forecastDay rd md avg start i = Inr p"
  shows "date p = addDays start i"
    and "eventsImpact (factors p) = 1"
    and "seasonalityFactor (factors p) = seasonalityFactorOf (getMonth (addDays start i))"
    and "weekendFactor (factors p) = weekendFactorOf (getDay (addDays start i))"
    and "predictedOccupancy p =
           min 100 (max 0 (avg * weekendFactor (factors p) * seasonalityFactor (factors p)
                             * eventsImpact (factors p)))"
    and "predictedADR p =
           baseADROf rd * occupancyADRFactorOf (predictedOccupancy p) * seasonalityFactor (factors p)"
    and "predictedRevPAR p = predictedOccupancy p * predictedADR p / 100"
    and "\<not> assignsConst md (addDays start i)"
proof -
  let ?d = "addDays start i"
  let ?occ = "min 100 (max 0 (avg * weekendFactorOf (getDay ?d) * seasonalityFactorOf (getMonth ?d) * 1))"
  let ?adr = "baseADROf rd * occupancyADRFactorOf ?occ * seasonalityFactorOf (getMonth ?d)"
  have nc: "\<not> assignsConst md ?d"
    using assms forecastDay_raises [of md start i rd avg] by (cases "assignsConst md ?d") auto
  then have p: "p = \<lparr> date = ?d, predictedOccupancy = ?occ, predictedADR = ?adr,
       predictedRevPAR = ?occ * ?adr / 100,
       factors = \<lparr> weekendFactor = weekendFactorOf (getDay ?d),
                   seasonalityFactor = seasonalityFactorOf (getMonth ?d), eventsImpact = 1 \<rparr> \<rparr>"
    using assms unfolding forecastDay_def Let_def dayEventsImpact_cases by simp
  show "date p = ?d" by (simp add: p)
  show "eventsImpact (factors p) = 1" by (simp add: p)
  show "seasonalityFactor (factors p) = seasonalityFactorOf (getMonth ?d)" by (simp add: p)
  show "weekendFactor (factors p) = weekendFactorOf (getDay ?d)" by (simp add: p)
  show "predictedOccupancy p =
           min 100 (max 0 (avg * weekendFactor (factors p) * seasonalityFactor (factors p)
                             * eventsImpact (factors p)))" by (simp add: p)
  show "predictedADR p =
           baseADROf rd * occupancyADRFactorOf (predictedOccupancy p) * seasonalityFactor (factors p)"
    by (simp add: p)
  show "predictedRevPAR p = predictedOccupancy p * predictedADR p / 100" by (simp add: p)
  show "\<not> assignsConst md ?d" by (rule nc)
qed

subsection \<open>The loop over the horizon\<close>

lemma predictionLoop_Inr:
  "predictionLoop rd md avg start n i ps = Inr qs \<Longrightarrow>
     \<exists>new. qs = ps @ new \<and> length new = nat (n - i) \<and>
           (\<forall>k<length new. forecastDay rd md avg start (i + int k) = Inr (new ! k))"
proof (induction rd md avg start n i ps rule: predictionLoop.induct)
  case (1 rd md avg start n i ps)
  show ?case
  proof (cases "i < n")
    case False
    with "1.prems" show ?thesis by (simp add: predictionLoop.simps)
  next
    case True
    with "1.prems" obtain p where p: "forecastDay rd md avg start i = Inr p"
      and rec: "predictionLoop rd md avg start n (i + 1) (ps @ [p]) = Inr qs"
      by (auto simp: predictionLoop.simps [of rd md avg start n i ps] split: sum.splits)
    from "1.IH" [OF True p rec] obtain new where new: "qs = (ps @ [p]) @ new"
      "length new = nat (n - (i + 1))"
      "\<forall>k<length new. forecastDay rd md avg start (i + 1 + int k) = Inr (new ! k)"
      by blast
    have "\<forall>k<length (p # new). forecastDay rd md avg start (i + int k) = Inr ((p # new) ! k)"
    proof (intro allI impI)
      fix k assume k: "k < length (p # new)"
      show "forecastDay rd md avg start (i + int k) = Inr ((p # new) ! k)"
      proof (cases k)
        case 0 with p show ?thesis by simp
      next
        case (Suc j)
        with k new(3) have "forecastDay rd md avg start (i + 1 + int j) = Inr (new ! j)" by simp
        with Suc show ?thesis by (simp add: add.commute add.left_commute)
      qed
    qed
    moreover have "length (p # new) = nat (n - i)" using new(2) True by simp
    moreover have "qs = ps @ (p # new)" using new(1) by simp
    ultimately show ?thesis by blast
  qed
qed

lemma predictionLoop_returns:
  "(\<forall>k. i \<le> k \<and> k < n \<longrightarrow> \<not> assignsConst md (addDays start k)) \<Longrightarrow>
     \<exists>qs. predictionLoop rd md avg start n i ps = Inr qs"
proof (induction rd md avg start n i ps rule: predictionLoop.induct)
  case (1 rd md avg start n i ps)
  show ?case
  proof (cases "i < n")
    case False
    then show ?thesis by (simp add: predictionLoop.simps)
  next
    case True
    with "1.prems" have "\<not> assignsConst md (addDays start i)" by simp
    then obtain p where p: "forecastDay rd md avg start i = Inr p"
      using forecastDay_returns by blast
    have "\<forall>k. i + 1 \<le> k \<and> k < n \<longrightarrow> \<not> assignsConst md (addDays start k)"
      using "1.prems" by simp
    from "1.IH" [OF True p this] obtain qs where
      "predictionLoop rd md avg start n (i + 1) (ps @ [p]) = Inr qs" by blast
    with True p show ?thesis
      by (simp add: predictionLoop.simps [of rd md avg start n i ps])
  qed
qed

lemma predictionLoop_Inl:
  "predictionLoop rd md avg start n i ps = Inl e \<Longrightarrow> e = TypeError"
proof (induction rd md avg start n i ps rule: predictionLoop.induct)
  case (1 rd md avg start n i ps)
  show ?case
  proof (cases "i < n")
    case False
    with "1.prems" show ?thesis by (simp add: predictionLoop.simps)
  next
    case True
    show ?thesis
    proof (cases "forecastDay rd md avg start i")
      case (Inl e')
      with True "1.prems" have "e = e'"
        by (simp add: predictionLoop.simps [of rd md avg start n i ps])
      with Inl forecastDay_Inl show ?thesis by blast
    next
      case (Inr p)
      with True "1.prems" have "predictionLoop rd md avg start n (i + 1) (ps @ [p]) = Inl e"
        by (simp add: predictionLoop.simps [of rd md avg start n i ps])
      from "1.IH" [OF True Inr this] show ?thesis .
    qed
  qed
qed

subsection \<open>predictDemand\<close>

lemma predictDemand_Inr:
  assumes "predictDemand rs ms hid target n = Inr f"
  shows "length (predictions f) = nat n"
    and "\<forall>k<nat n.
           forecastDay (getRevenueData rs hid (addDays target (- 90)) target)
             (getMarketData ms hid (addDays target (- 90)) target)
             (avgOccupancyOf (getRevenueData rs hid (addDays target (- 90)) target))
             target (int k) = Inr (predictions f ! k)"
proof -
  let ?rd = "getRevenueData rs hid (addDays target (- 90)) target"
  let ?md = "getMarketData ms hid (addDays target (- 90)) target"
  from assms obtain qs where qs: "predictionLoop ?rd ?md (avgOccupancyOf ?rd) target n 0 [] = Inr qs"
    and f: "predictions f = qs"
    by (auto simp: predictDemand_def Let_def split: sum.splits)
  from predictionLoop_Inr [OF qs] f
  show "length (predictions f) = nat n"
    and "\<forall>k<nat n. forecastDay ?rd ?md (avgOccupancyOf ?rd) target (int k) = Inr (predictions f ! k)"
    by auto
qed

lemma predictDemand_member:
  assumes "predictDemand rs ms hid target n = Inr f" and "p \<in> set (predictions f)"
  shows "\<exists>rd md avg i. forecastDay rd md avg target i = Inr p"
proof -
  from assms(2) obtain k where k: "k < length (predictions f)" "predictions f ! k = p"
    by (auto simp: in_set_conv_nth)
  with predictDemand_Inr [OF assms(1)] show ?thesis by metis
qed

lemma predictDemand_returns:
  assumes "\<forall>k. 0 \<le> k \<and> k < n \<longrightarrow>
             \<not> assignsConst (getMarketData ms hid (addDays target (- 90)) target) (addDays target k)"
  shows "\<exists>f. predictDemand rs ms hid target n = Inr f"
proof -
  let ?rd = "getRevenueData rs hid (addDays target (- 90)) target"
  let ?md = "getMarketData ms hid (addDays target (- 90)) target"
  from predictionLoop_returns [OF assms, of ?rd "avgOccupancyOf ?rd" "[]"]
  obtain qs where "predictionLoop ?rd ?md (avgOccupancyOf ?rd) target n 0 [] = Inr qs" by blast
  then show ?thesis by (simp add: predictDemand_def Let_def)
qed

lemma predictDemand_raises:
  assumes "0 < n"
    and "assignsConst (getMarketData ms hid (addDays target (- 90)) target) (addDays target 0)"
  shows "predictDemand rs ms hid target n = Inl TypeError"
  using assms
  by (simp add: predictDemand_def Let_def predictionLoop.simps [of _ _ _ _ n 0] forecastDay_raises)

lemma predictDemand_Inl:
  "predictDemand rs ms hid target n = Inl e \<Longrightarrow> e = TypeError"
  by (auto simp: predictDemand_def Let_def split: sum.splits dest: predictionLoop_Inl)

subsection \<open>Sample runs\<close>

lemma sample_forecast:
  "predictDemand [sampleRevenue] [sampleMarket] ''h1'' wednesday 2 = Inr sampleForecast"
  by code_simp

lemma sample_prediction_member: "samplePrediction \<in> set (predictions sampleForecast)"
  by (simp add: sampleForecast_def)

subsection \<open>Claims about predictDemand\<close>

text \<open>
  C1. The claim: on a day whose market record holds events, \<open>eventsImpact\<close> starts at
  1.0 and grows by 0.2, 0.1 or 0.05 per event, so that one event of high impact gives 1.2,
  and the prediction of that day is still produced. The code declares \<open>eventsImpact\<close>
  with \<open>const\<close>: with the sample revenue record and a market record of the target day
  that holds one event of high impact, the forecast of that single day ends in the
  TypeError of the assignment, and no prediction is produced.
\<close>

theorem predictDemand_high_event_raises:
  "predictDemand [sampleRevenue] [sampleMarket] ''h1'' saturday 1 = Inl TypeError"
  by code_simp

text \<open>
  C4. Every prediction that \<open>predictDemand\<close> produces has a predicted occupancy between
  0 and 100.
\<close>

theorem predictedOccupancy_clamped:
  assumes "predictDemand rs ms hid target n = Inr f" and "p \<in> set (predictions f)"
  shows "0 \<le> predictedOccupancy p \<and> predictedOccupancy p \<le> 100"
proof -
  from predictDemand_member [OF assms] obtain rd md avg i
    where "forecastDay rd md avg target i = Inr p" by blast
  from forecastDay_Inr(5) [OF this] show ?thesis by simp
qed

theorem predictedOccupancy_clamped_witness:
  "predictDemand [sampleRevenue] [sampleMarket] ''h1'' wednesday 2 = Inr sampleForecast
   \<and> samplePrediction \<in> set (predictions sampleForecast)
   \<and> 0 \<le> predictedOccupancy samplePrediction \<and> predictedOccupancy samplePrediction \<le> 100"
  using predictedOccupancy_clamped [OF sample_forecast sample_prediction_member]
    sample_forecast sample_prediction_member
  by simp

text \<open>
  C5. In every prediction that \<open>predictDemand\<close> produces, the predicted RevPAR is the
  predicted occupancy times the predicted ADR, divided by 100.
\<close>

theorem predictedRevPAR_identity:
  assumes "predictDemand rs ms hid target n = Inr f" and "p \<in> set (predictions f)"
  shows "predictedRevPAR p = predictedOccupancy p * predictedADR p / 100"
proof -
  from predictDemand_member [OF assms] obtain rd md avg i
    where "forecastDay rd md avg target i = Inr p" by blast
  from forecastDay_Inr(7) [OF this] show ?thesis .
qed

theorem predictedRevPAR_identity_witness:
  "predictDemand [sampleRevenue] [sampleMarket] ''h1'' wednesday 2 = Inr sampleForecast
   \<and> samplePrediction \<in> set (predictions sampleForecast)
   \<and> predictedRevPAR samplePrediction
       = predictedOccupancy samplePrediction * predictedADR samplePrediction / 100"
  using predictedRevPAR_identity [OF sample_forecast sample_prediction_member]
    sample_forecast sample_prediction_member
  by simp

lemma dayNumber_addDays: "dayNumber (addDays d k) = dayNumber d + k"
  by (simp add: dayNumber_def addDays_def msPerDay_def)

lemma addDays_strict_mono: "i < j \<Longrightarrow> addDays d i < addDays d j"
  by (simp add: addDays_def msPerDay_def)

text \<open>
  C9. The predictions that \<open>predictDemand\<close> returns are as many as \<open>daysAhead\<close>, the
  one at position \<open>k\<close> is dated \<open>k\<close> calendar days after the target date, and the dates
  ascend. The call returns whenever no forecast day reaches the assignment to the constant
  (see C1).
\<close>

theorem predictDemand_one_per_day:
  "(\<forall>f. predictDemand rs ms hid target n = Inr f \<longrightarrow>
        length (predictions f) = nat n \<and>
        (\<forall>k<nat n. date (predictions f ! k) = addDays target (int k) \<and>
                   dayNumber (date (predictions f ! k)) = dayNumber target + int k) \<and>
        sorted_wrt (<) (map date (predictions f)))
   \<and> ((\<forall>k. 0 \<le> k \<and> k < n \<longrightarrow>
          \<not> assignsConst (getMarketData ms hid (addDays target (- 90)) target) (addDays target k))
       \<longrightarrow> (\<exists>f. predictDemand rs ms hid target n = Inr f))"
proof -
  have returned: "length (predictions f) = nat n \<and>
        (\<forall>k<nat n. date (predictions f ! k) = addDays target (int k) \<and>
                   dayNumber (date (predictions f ! k)) = dayNumber target + int k) \<and>
        sorted_wrt (<) (map date (predictions f))"
    if f: "predictDemand rs ms hid target n = Inr f" for f
  proof -
    note len = predictDemand_Inr(1) [OF f]
    have dates: "date (predictions f ! k) = addDays target (int k)" if "k < nat n" for k
      using predictDemand_Inr(2) [OF f] that forecastDay_Inr(1) by blast
    have "map date (predictions f) ! i < map date (predictions f) ! j"
      if "i < j" "j < length (map date (predictions f))" for i j
    proof -
      from that len have "i < nat n" "j < nat n" by simp_all
      with that len dates addDays_strict_mono [of "int i" "int j" target]
      show ?thesis by simp
    qed
    then have "sorted_wrt (<) (map date (predictions f))"
      unfolding sorted_wrt_iff_nth_less by blast
    with len dates show ?thesis by (simp add: dayNumber_addDays)
  qed
  have returns: "\<exists>f. predictDemand rs ms hid target n = Inr f"
    if "\<forall>k. 0 \<le> k \<and> k < n \<longrightarrow>
          \<not> assignsConst (getMarketData ms hid (addDays target (- 90)) target) (addDays target k)"
    using that by (rule predictDemand_returns)
  from returned returns show ?thesis by blast
qed

theorem predictDemand_one_per_day_witness:
  "predictDemand [sampleRevenue] [sampleMarket] ''h1'' wednesday 2 = Inr sampleForecast
   \<and> length (predictions sampleForecast) = 2
   \<and> date (predictions sampleForecast ! 0) = wednesday
   \<and> date (predictions sampleForecast ! 1) = wednesday + 86400000
   \<and> sorted_wrt (<) (map date (predictions sampleForecast))"
proof -
  have "length (predictions sampleForecast) = nat 2 \<and>
        (\<forall>k<nat 2. date (predictions sampleForecast ! k) = addDays wednesday (int k) \<and>
                   dayNumber (date (predictions sampleForecast ! k)) = dayNumber wednesday + int k) \<and>
        sorted_wrt (<) (map date (predictions sampleForecast))"
    using predictDemand_one_per_day [of "[sampleRevenue]" "[sampleMarket]" "''h1''" wednesday 2]
      sample_forecast by blast
  then have "length (predictions sampleForecast) = 2"
    and "date (predictions sampleForecast ! 0) = addDays wednesday 0"
    and "date (predictions sampleForecast ! 1) = addDays wednesday 1"
    and "sorted_wrt (<) (map date (predictions sampleForecast))"
    by (simp_all add: numeral_2_eq_2)
  with sample_forecast show ?thesis by (simp add: addDays_def msPerDay_def)
qed

subsection \<open>Claims about calculateKPIs\<close>

lemma calculateKPIs_shape: "shape (calculateKPIs store hid s e) = zeroKPIs"
  by (simp add: calculateKPIs_def zeroKPIs_def Let_def)

text \<open>
  C3. When the store returns no revenue record for the hotel and the range,
  \<open>calculateKPIs\<close> returns the all-zero object; every result of \<open>calculateKPIs\<close>, empty
  or not, has the keys of that object, in the same nesting.
\<close>

theorem calculateKPIs_empty:
  assumes "getRevenueData store hid s e = []"
  shows "calculateKPIs store hid s e = zeroKPIs
         \<and> (\<forall>store' hid' s' e'.
               shape (calculateKPIs store' hid' s' e') = shape (calculateKPIs store hid s e))"
  using assms by (simp add: calculateKPIs_shape) (simp add: calculateKPIs_def zeroKPIs_def)

lemma sample_no_records: "getRevenueData [sampleRevenue] ''h1'' wednesday saturday = []"
  by code_simp

theorem calculateKPIs_empty_witness:
  "getRevenueData [sampleRevenue] ''h1'' wednesday saturday = []
   \<and> calculateKPIs [sampleRevenue] ''h1'' wednesday saturday = zeroKPIs
   \<and> shape (calculateKPIs [sampleRevenue] ''h1'' 0 wednesday)
       = shape (calculateKPIs [sampleRevenue] ''h1'' wednesday saturday)"
proof -
  from calculateKPIs_empty [OF sample_no_records]
  have zero: "calculateKPIs [sampleRevenue] ''h1'' wednesday saturday = zeroKPIs"
    and same: "\<forall>store' hid' s' e'.
                 shape (calculateKPIs store' hid' s' e')
                 = shape (calculateKPIs [sampleRevenue] ''h1'' wednesday saturday)"
    by blast+
  from same have "shape (calculateKPIs [sampleRevenue] ''h1'' 0 wednesday)
                  = shape (calculateKPIs [sampleRevenue] ''h1'' wednesday saturday)"
    by blast
  with zero sample_no_records show ?thesis by blast
qed

subsection \<open>Claims about recommendPricing\<close>

lemma recommendPricing_Inr:
  assumes "recommendPricing rs ms hotels hid target n = Inr r"
  obtains f where "predictDemand rs ms hid target n = Inr f"
    and "recommendations r = map recommendDay (predictions f)"
  using assms by (auto simp: recommendPricing_def split: sum.splits option.splits)

lemma recommendDay_rooms:
  "map roomSummary (roomTypes (recommendDay p)) =
     [(''Standard'', specRecommendedPrice 100 1.0 p,
         real_of_int (specRecommendedPrice 100 1.0 p) * predictedOccupancy p / 100),
      (''Deluxe'', specRecommendedPrice 150 1.1 p,
         real_of_int (specRecommendedPrice 150 1.1 p) * predictedOccupancy p / 100),
      (''Suite'', specRecommendedPrice 250 1.2 p,
         real_of_int (specRecommendedPrice 250 1.2 p) * predictedOccupancy p / 100),
      (''Executive Suite'', specRecommendedPrice 350 1.3 p,
         real_of_int (specRecommendedPrice 350 1.3 p) * predictedOccupancy p / 100)]"
  by (simp add: recommendDay_def roomTypesTable_def recommendRoom_def roomSummary_def
        roomTypeFactorOf_def specRecommendedPrice_def demandFactorOf_def Let_def)

lemma sample_pricing:
  "recommendPricing [sampleRevenue] [sampleMarket] [''h1''] ''h1'' wednesday 1 = Inr samplePricing"
  by code_simp

lemma sample_forecast_one:
  "predictDemand [sampleRevenue] [sampleMarket] ''h1'' wednesday 1 =
     Inr \<lparr> hotelId = ''h1'', targetDate = 1709683200000, daysAhead = 1,
           predictions = [samplePrediction] \<rparr>"
  by code_simp

text \<open>
  C6. For every forecast day and each of the four room types (Standard, Deluxe, Suite,
  Executive Suite; base prices 100, 150, 250, 350; type factors 1.0, 1.1, 1.2, 1.3), the
  result of \<open>recommendPricing\<close> holds the recommended price of the specification and the
  expected revenue, which is that price times the predicted occupancy over 100.
\<close>

theorem recommendPricing_prices:
  assumes "recommendPricing rs ms hotels hid target n = Inr r"
  shows "\<exists>f. predictDemand rs ms hid target n = Inr f \<and>
           length (recommendations r) = length (predictions f) \<and>
           (\<forall>i<length (predictions f).
              rec_date (recommendations r ! i) = date (predictions f ! i) \<and>
              occupancyForecast (recommendations r ! i) = predictedOccupancy (predictions f ! i) \<and>
              map roomSummary (roomTypes (recommendations r ! i)) =
                [(''Standard'', specRecommendedPrice 100 1.0 (predictions f ! i),
                    real_of_int (specRecommendedPrice 100 1.0 (predictions f ! i))
                      * predictedOccupancy (predictions f ! i) / 100),
                 (''Deluxe'', specRecommendedPrice 150 1.1 (predictions f ! i),
                    real_of_int (specRecommendedPrice 150 1.1 (predictions f ! i))
                      * predictedOccupancy (predictions f ! i) / 100),
                 (''Suite'', specRecommendedPrice 250 1.2 (predictions f ! i),
                    real_of_int (specRecommendedPrice 250 1.2 (predictions f ! i))
                      * predictedOccupancy (predictions f ! i) / 100),
                 (''Executive Suite'', specRecommendedPrice 350 1.3 (predictions f ! i),
                    real_of_int (specRecommendedPrice 350 1.3 (predictions f ! i))
                      * predictedOccupancy (predictions f ! i) / 100)])"
proof -
  from assms obtain f where f: "predictDemand rs ms hid target n = Inr f"
    and r: "recommendations r = map recommendDay (predictions f)"
    by (rule recommendPricing_Inr)
  have "rec_date (recommendDay p) = date p" "occupancyForecast (recommendDay p) = predictedOccupancy p"
    for p by (simp_all add: recommendDay_def)
  with f r recommendDay_rooms show ?thesis by simp
qed

theorem recommendPricing_prices_witness:
  "recommendPricing [sampleRevenue] [sampleMarket] [''h1''] ''h1'' wednesday 1 = Inr samplePricing
   \<and> map roomSummary (roomTypes (recommendations samplePricing ! 0)) =
       [(''Standard'', 132, 2541 / 25), (''Deluxe'', 218, 8393 / 50),
        (''Suite'', 396, 7623 / 25), (''Executive Suite'', 601, 46277 / 100)]"
proof -
  from recommendPricing_prices [OF sample_pricing] sample_forecast_one
  have "map roomSummary (roomTypes (recommendations samplePricing ! 0)) =
          [(''Standard'', specRecommendedPrice 100 1.0 samplePrediction,
              real_of_int (specRecommendedPrice 100 1.0 samplePrediction)
                * predictedOccupancy samplePrediction / 100),
           (''Deluxe'', specRecommendedPrice 150 1.1 samplePrediction,
              real_of_int (specRecommendedPrice 150 1.1 samplePrediction)
                * predictedOccupancy samplePrediction / 100),
           (''Suite'', specRecommendedPrice 250 1.2 samplePrediction,
              real_of_int (specRecommendedPrice 250 1.2 samplePrediction)
                * predictedOccupancy samplePrediction / 100),
           (''Executive Suite'', specRecommendedPrice 350 1.3 samplePrediction,
              real_of_int (specRecommendedPrice 350 1.3 samplePrediction)
                * predictedOccupancy samplePrediction / 100)]"
    by auto
  moreover have "specRecommendedPrice 100 1.0 samplePrediction = 132"
    and "specRecommendedPrice 150 1.1 samplePrediction = 218"
    and "specRecommendedPrice 250 1.2 samplePrediction = 396"
    and "specRecommendedPrice 350 1.3 samplePrediction = 601"
    and "predictedOccupancy samplePrediction = 77"
    by code_simp+
  ultimately show ?thesis using sample_pricing by simp
qed

lemma Math_round_bracket:
  assumes "0 \<le> k"
  shows "Math_round (real_of_int k * 0.9) \<le> k" and "k \<le> Math_round (real_of_int k * 1.1)"
proof -
  have "real_of_int k * 0.9 + 1 / 2 < real_of_int (k + 1)" using assms by simp
  then have "\<lfloor>real_of_int k * 0.9 + 1 / 2\<rfloor> < k + 1" by (simp only: floor_less_iff)
  then show "Math_round (real_of_int k * 0.9) \<le> k" by (simp add: Math_round_def)
  have "real_of_int k \<le> real_of_int k * 1.1 + 1 / 2" using assms by simp
  then have "k \<le> \<lfloor>real_of_int k * 1.1 + 1 / 2\<rfloor>" by (simp only: le_floor_iff)
  then show "k \<le> Math_round (real_of_int k * 1.1)" by (simp add: Math_round_def)
qed

lemma seasonalityFactorOf_pos: "0 < seasonalityFactorOf m"
  by (simp add: seasonalityFactorOf_def)

lemma demandFactorOf_pos: "0 < demandFactorOf x"
  by (simp add: demandFactorOf_def)

lemma roomTypeFactorOf_pos: "0 < roomTypeFactorOf x"
  by (simp add: roomTypeFactorOf_def)

lemma basePrice_pos: "rt \<in> set roomTypesTable \<Longrightarrow> 0 < basePrice rt"
  by (auto simp: roomTypesTable_def)

lemma recommendRoom_price_nonneg:
  assumes "0 < seasonalityFactor (factors p)" and "rt \<in> set roomTypesTable"
  shows "0 \<le> recommendedPrice (recommendRoom p rt)"
proof -
  have "0 < basePrice rt * demandFactorOf (predictedOccupancy p) * roomTypeFactorOf (name rt)
              * seasonalityFactor (factors p)"
    using assms basePrice_pos demandFactorOf_pos roomTypeFactorOf_pos by simp
  then have "0 \<le> Math_round (basePrice rt * demandFactorOf (predictedOccupancy p)
                     * roomTypeFactorOf (name rt) * seasonalityFactor (factors p))"
    unfolding Math_round_def by (simp only: zero_le_floor)
  then show ?thesis by (simp add: recommendRoom_def Let_def)
qed

text \<open>
  C7. In every recommendation that \<open>recommendPricing\<close> generates, the lower end of the
  price range is the rounded 0.9-fold and the upper end the rounded 1.1-fold of the
  recommended price, and the recommended price lies between the two.
\<close>

theorem priceRange_brackets_price:
  assumes "recommendPricing rs ms hotels hid target n = Inr r"
    and "d \<in> set (recommendations r)" and "x \<in> set (roomTypes d)"
  shows "min_price (priceRange x) = Math_round (real_of_int (recommendedPrice x) * 0.9)
         \<and> max_price (priceRange x) = Math_round (real_of_int (recommendedPrice x) * 1.1)
         \<and> min_price (priceRange x) \<le> recommendedPrice x
         \<and> recommendedPrice x \<le> max_price (priceRange x)"
proof -
  from assms(1) obtain f where f: "predictDemand rs ms hid target n = Inr f"
    and r: "recommendations r = map recommendDay (predictions f)"
    by (rule recommendPricing_Inr)
  from assms(2) r obtain p where p: "p \<in> set (predictions f)" and d: "d = recommendDay p"
    by auto
  from assms(3) d obtain rt where rt: "rt \<in> set roomTypesTable" and x: "x = recommendRoom p rt"
    by (auto simp: recommendDay_def)
  from predictDemand_member [OF f p] obtain rd md avg i
    where "forecastDay rd md avg target i = Inr p" by blast
  from forecastDay_Inr(3) [OF this] have "0 < seasonalityFactor (factors p)"
    by (simp add: seasonalityFactorOf_pos)
  from recommendRoom_price_nonneg [OF this rt] have nonneg: "0 \<le> recommendedPrice x"
    by (simp add: x)
  have "min_price (priceRange x) = Math_round (real_of_int (recommendedPrice x) * 0.9)"
    and "max_price (priceRange x) = Math_round (real_of_int (recommendedPrice x) * 1.1)"
    by (simp_all add: x recommendRoom_def Let_def)
  with Math_round_bracket [OF nonneg] show ?thesis by simp
qed

theorem priceRange_brackets_price_witness:
  "recommendPricing [sampleRevenue] [sampleMarket] [''h1''] ''h1'' wednesday 1 = Inr samplePricing
   \<and> sampleDay \<in> set (recommendations samplePricing)
   \<and> sampleRoom \<in> set (roomTypes sampleDay)
   \<and> min_price (priceRange sampleRoom) = 196 \<and> max_price (priceRange sampleRoom) = 240
   \<and> min_price (priceRange sampleRoom) \<le> recommendedPrice sampleRoom
   \<and> recommendedPrice sampleRoom \<le> max_price (priceRange sampleRoom)"
proof -
  have day: "sampleDay \<in> set (recommendations samplePricing)"
    by (simp add: samplePricing_def)
  have room: "sampleRoom \<in> set (roomTypes sampleDay)"
    by (simp add: sampleDay_def)
  from priceRange_brackets_price [OF sample_pricing day room] sample_pricing day room
  show ?thesis by (simp add: sampleRoom_def)
qed

subsection \<open>Claims about runSimulation\<close>

text \<open>
  C2. The claim: a price change of 10 percent without marketing spend or competitor
  change turns a baseline day of occupancy 70 and ADR 150 into occupancy 66.5, ADR 165 and
  RevPAR 109.725. The code multiplies the price change in percent, 10, by the elasticity
  \<open>-0.5\<close> and adds the product \<open>-5\<close> unscaled to the fractional marketing impact; the
  occupancy is scaled by \<open>1 + (-5)\<close> and clamped: the simulated day has occupancy 0,
  ADR 165 and RevPAR 0.
\<close>

theorem simulatePrediction_price_up_ten:
  "simulated
     (simulatePrediction (demandChangeFromPriceOf (Num 10)) (marketingImpactOf (Num 0))
        (competitorImpactOf (Num 0)) (Num 10) baselineDay)
   = \<lparr> occupancy = Num 0, m_adr = Num 165, m_revPAR = Num 0 \<rparr>"
  by code_simp

lemma runSimulation_Inr:
  assumes "runSimulation rs ms hid sc = Inr res"
  obtains f where
    "predictDemand rs ms hid (startDate sc) (simulationDays (startDate sc) (endDate sc)) = Inr f"
    and "dailyResults res =
           map (simulatePrediction (demandChangeFromPriceOf (priceChange sc))
                  (marketingImpactOf (marketingSpend sc))
                  (competitorImpactOf (competitorPriceChange sc)) (priceChange sc))
             (predictions f)"
    and "totalRevPARChange (summary res) =
           js_sub (foldl (\<lambda>sum p. js_add sum (m_revPAR (simulated p))) (Num 0) (dailyResults res))
             (Num (foldl (\<lambda>sum p. sum + predictedRevPAR p) 0 (predictions f)))"
    and "roi (summary res) = roiOf (marketingSpend sc) (totalRevPARChange (summary res))"
  using assms by (auto simp: runSimulation_def Let_def split: sum.splits)

lemma simulatePrediction_date: "sim_date (simulatePrediction a b c pc p) = date p"
  by (simp add: simulatePrediction_def Let_def)



lemma sample_run:
  "runSimulation [sampleRevenue] [sampleMarket] ''h1'' (sampleScenario (Num 1000) (Num 0))
   = Inr (sampleSimulation (Num 1000) (Some (Num (- (83853 / 5000)))))"
  by code_simp





lemma simulationDays_next_day: "simulationDays s (addDays s 1) = 1"
  by (simp add: simulationDays_def addDays_def msPerDay_def Math_round_def)

text \<open>
  C10. \<open>runSimulation\<close> simulates as many days as the difference of the end and the start
  date, divided by 86,400,000 ms and rounded; the day at position \<open>k\<close> is dated \<open>k\<close> days
  after the start date, so that a scenario that ends one day after its start has exactly one
  daily entry, dated at the start. The run returns whenever no forecast day reaches the
  assignment to the constant (see C1).
\<close>

theorem runSimulation_days:
  "(\<forall>res. runSimulation rs ms hid sc = Inr res \<longrightarrow>
        length (dailyResults res)
          = nat (Math_round (real_of_int (endDate sc - startDate sc) / 86400000)) \<and>
        (\<forall>k<length (dailyResults res).
            sim_date (dailyResults res ! k) = addDays (startDate sc) (int k)) \<and>
        (endDate sc = addDays (startDate sc) 1 \<longrightarrow>
            map sim_date (dailyResults res) = [startDate sc]))
   \<and> ((\<forall>k. 0 \<le> k \<and> k < simulationDays (startDate sc) (endDate sc) \<longrightarrow>
          \<not> assignsConst
              (getMarketData ms hid (addDays (startDate sc) (- 90)) (startDate sc))
              (addDays (startDate sc) k))
       \<longrightarrow> (\<exists>res. runSimulation rs ms hid sc = Inr res))"
proof -
  let ?n = "simulationDays (startDate sc) (endDate sc)"
  have returned: "length (dailyResults res)
          = nat (Math_round (real_of_int (endDate sc - startDate sc) / 86400000)) \<and>
        (\<forall>k<length (dailyResults res).
            sim_date (dailyResults res ! k) = addDays (startDate sc) (int k)) \<and>
        (endDate sc = addDays (startDate sc) 1 \<longrightarrow>
            map sim_date (dailyResults res) = [startDate sc])"
    if res: "runSimulation rs ms hid sc = Inr res" for res
  proof -
    from res obtain f where f: "predictDemand rs ms hid (startDate sc) ?n = Inr f"
      and daily: "dailyResults res =
           map (simulatePrediction (demandChangeFromPriceOf (priceChange sc))
                  (marketingImpactOf (marketingSpend sc))
                  (competitorImpactOf (competitorPriceChange sc)) (priceChange sc))
             (predictions f)"
      by (rule runSimulation_Inr) blast
    note len = predictDemand_Inr(1) [OF f]
    have dates: "date (predictions f ! k) = addDays (startDate sc) (int k)" if "k < nat ?n" for k
      using predictDemand_Inr(2) [OF f] that forecastDay_Inr(1) by blast
    have l: "length (dailyResults res) = nat ?n" by (simp add: daily len)
    have d: "sim_date (dailyResults res ! k) = addDays (startDate sc) (int k)"
      if "k < length (dailyResults res)" for k
      using that l len dates by (simp add: daily simulatePrediction_date)
    have one: "map sim_date (dailyResults res) = [startDate sc]"
      if e: "endDate sc = addDays (startDate sc) 1"
    proof -
      from l e have l1: "length (dailyResults res) = 1" by (simp add: simulationDays_next_day)
      then obtain x where x: "dailyResults res = [x]"
        by (cases "dailyResults res") auto
      from d [of 0] l1 x show ?thesis by (simp add: addDays_def)
    qed
    from l d one show ?thesis by (simp add: simulationDays_def)
  qed
  have returns: "\<exists>res. runSimulation rs ms hid sc = Inr res"
    if "\<forall>k. 0 \<le> k \<and> k < ?n \<longrightarrow>
          \<not> assignsConst
              (getMarketData ms hid (addDays (startDate sc) (- 90)) (startDate sc))
              (addDays (startDate sc) k)"
  proof -
    from predictDemand_returns [OF that] obtain f where
      "predictDemand rs ms hid (startDate sc) ?n = Inr f" by blast
    then show ?thesis by (simp add: runSimulation_def Let_def)
  qed
  from returned returns show ?thesis by blast
qed

theorem runSimulation_days_witness:
  "runSimulation [sampleRevenue] [sampleMarket] ''h1'' (sampleScenario (Num 1000) (Num 0))
     = Inr (sampleSimulation (Num 1000) (Some (Num (- (83853 / 5000)))))
   \<and> endDate (sampleScenario (Num 1000) (Num 0))
       = addDays (startDate (sampleScenario (Num 1000) (Num 0))) 1
   \<and> map sim_date (dailyResults (sampleSimulation (Num 1000) (Some (Num (- (83853 / 5000))))))
       = [wednesday]"
proof -
  have next_day: "endDate (sampleScenario (Num 1000) (Num 0))
                  = addDays (startDate (sampleScenario (Num 1000) (Num 0))) 1"
    by (simp add: sampleScenario_def addDays_def msPerDay_def)
  from runSimulation_days [of "[sampleRevenue]" "[sampleMarket]" "''h1''"
      "sampleScenario (Num 1000) (Num 0)"] sample_run next_day
  have "map sim_date (dailyResults (sampleSimulation (Num 1000) (Some (Num (- (83853 / 5000))))))
        = [startDate (sampleScenario (Num 1000) (Num 0))]"
    by blast
  with sample_run next_day show ?thesis by (simp add: sampleScenario_def wednesday_def)
qed

end
